theory Spec2Isabelle
  imports Main
begin

section \<open>The bootstrapper of puertocho-assistant-view (main.cpp)\<close>

text \<open>
  \<^verbatim>\<open>main\<close> is a straight line of calls into the GUI toolkit. The model passes the
  process-wide toolkit state explicitly and logs every call in program order, so that
  ordering properties are properties of the log. What the toolkit does behind each call
  is written out next to the call; what the environment decides (the process arguments,
  the notifications the engine emits for a load request, the code with which the event
  loop ends when this program asked for none) is a parameter.
\<close>

subsection \<open>Data\<close>

datatype attribute = AA_EnableHighDpiScaling | AA_UseHighDpiPixmaps

type_synonym qurl = string

text \<open>A \<^verbatim>\<open>QObject *\<close>: \<open>None\<close> is the null pointer, \<open>Some a\<close> an object at address \<open>a\<close>.\<close>

type_synonym qobject = "nat option"

datatype connection_type = AutoConnection | DirectConnection | QueuedConnection

text \<open>
  The only slot of the program is the lambda of lines 31 to 34; it is kept as data
  together with its capture \<^verbatim>\<open>[url]\<close>.
\<close>

datatype slot = Lambda qurl

datatype call =
    SetAttribute attribute
  | Construct "string list"
  | SetApplicationName string
  | SetApplicationVersion string
  | SetOrganizationName string
  | SetOrganizationDomain string
  | NewEngine
  | RootContext
  | SetContextProperty string string
  | Connect slot connection_type
  | Load qurl
  | Exec
  | Invoke slot qobject qurl
  | Exit int

record process =
  attributes :: "attribute set"
  app_args :: "string list option"
  applicationName :: string
  applicationVersion :: string
  organizationName :: string
  organizationDomain :: string
  engine_created :: bool
  contextProperties :: "string \<rightharpoonup> string"
  connections :: "(slot \<times> connection_type) list"
  posted :: "(slot \<times> qobject \<times> qurl) list"
  exit_code :: "int option"
  calls :: "call list"

definition start :: process where
  "start = \<lparr> attributes = {}, app_args = None, applicationName = [],
     applicationVersion = [], organizationName = [], organizationDomain = [],
     engine_created = False, contextProperties = Map.empty, connections = [],
     posted = [], exit_code = None, calls = [] \<rparr>"

definition log :: "call \<Rightarrow> process \<Rightarrow> process" where
  "log c s = s\<lparr>calls := calls s @ [c]\<rparr>"

subsection \<open>The toolkit calls of lines 10 to 26\<close>

definition setAttribute :: "attribute \<Rightarrow> process \<Rightarrow> process" where
  "setAttribute a s = log (SetAttribute a) (s\<lparr>attributes := insert a (attributes s)\<rparr>)"

definition QGuiApplication :: "string list \<Rightarrow> process \<Rightarrow> process" where
  "QGuiApplication argv s = log (Construct argv) (s\<lparr>app_args := Some argv\<rparr>)"

definition setApplicationName :: "string \<Rightarrow> process \<Rightarrow> process" where
  "setApplicationName n s = log (SetApplicationName n) (s\<lparr>applicationName := n\<rparr>)"

definition setApplicationVersion :: "string \<Rightarrow> process \<Rightarrow> process" where
  "setApplicationVersion v s = log (SetApplicationVersion v) (s\<lparr>applicationVersion := v\<rparr>)"

definition setOrganizationName :: "string \<Rightarrow> process \<Rightarrow> process" where
  "setOrganizationName n s = log (SetOrganizationName n) (s\<lparr>organizationName := n\<rparr>)"

definition setOrganizationDomain :: "string \<Rightarrow> process \<Rightarrow> process" where
  "setOrganizationDomain d s = log (SetOrganizationDomain d) (s\<lparr>organizationDomain := d\<rparr>)"

definition QQmlApplicationEngine :: "process \<Rightarrow> process" where
  "QQmlApplicationEngine s = log NewEngine (s\<lparr>engine_created := True\<rparr>)"

definition rootContext :: "process \<Rightarrow> process" where
  "rootContext s = log RootContext s"

definition setContextProperty :: "string \<Rightarrow> string \<Rightarrow> process \<Rightarrow> process" where
  "setContextProperty k v s =
     log (SetContextProperty k v) (s\<lparr>contextProperties := (contextProperties s)(k \<mapsto> v)\<rparr>)"

subsection \<open>The observer of lines 30 to 34\<close>

text \<open>
  \<^verbatim>\<open>QCoreApplication::exit(code)\<close> records the code with which the event loop is to
  return; it returns to its caller.
\<close>

definition exit :: "int \<Rightarrow> process \<Rightarrow> process" where
  "exit c s = log (Exit c) (s\<lparr>exit_code := Some c\<rparr>)"

text \<open>
  \<^verbatim>\<open>[url](QObject *obj, const QUrl &objUrl) { if (!obj && url == objUrl)
  QCoreApplication::exit(-1); }\<close>
\<close>

fun run_slot :: "slot \<Rightarrow> qobject \<Rightarrow> qurl \<Rightarrow> process \<Rightarrow> process" where
  "run_slot (Lambda url) obj objUrl s =
     (if obj = None \<and> url = objUrl then exit (- 1) s else s)"

definition invoke :: "slot \<Rightarrow> qobject \<Rightarrow> qurl \<Rightarrow> process \<Rightarrow> process" where
  "invoke sl obj objUrl s = run_slot sl obj objUrl (log (Invoke sl obj objUrl) s)"

definition connect :: "slot \<Rightarrow> connection_type \<Rightarrow> process \<Rightarrow> process" where
  "connect sl ct s = log (Connect sl ct) (s\<lparr>connections := connections s @ [(sl, ct)]\<rparr>)"

subsection \<open>Signal delivery, the load request and the event loop\<close>

text \<open>
  Modelled from the spec: how the toolkit delivers \<^verbatim>\<open>objectCreated\<close> is not in
  main.cpp. A queued connection posts the call to the event queue of the receiver; the
  other two run the slot inside the emitting call (sender and receiver live in the one
  thread of this program).
\<close>

fun deliver :: "qobject \<Rightarrow> qurl \<Rightarrow> slot \<times> connection_type \<Rightarrow> process \<Rightarrow> process" where
  "deliver obj objUrl (sl, QueuedConnection) s = s\<lparr>posted := posted s @ [(sl, obj, objUrl)]\<rparr>"
| "deliver obj objUrl (sl, DirectConnection) s = invoke sl obj objUrl s"
| "deliver obj objUrl (sl, AutoConnection) s = invoke sl obj objUrl s"

definition objectCreated :: "qobject \<times> qurl \<Rightarrow> process \<Rightarrow> process" where
  "objectCreated n s = fold (deliver (fst n) (snd n)) (connections s) s"

text \<open>
  Modelled from the spec: \<^verbatim>\<open>engine.load(url)\<close> asks for the document; the
  notifications the engine emits for the request are the parameter \<open>emitted\<close>, each a
  document handle and the path it reports. The spec has one notification for a request,
  fired when the document finishes instantiating, with a handle or without. The
  parameter is any list, so that what is proved for every list does not rest on how many
  the engine emits nor on the path it reports; a property that does rest on it says so
  in a hypothesis.
\<close>

definition load :: "qurl \<Rightarrow> (qobject \<times> qurl) list \<Rightarrow> process \<Rightarrow> process" where
  "load u emitted s = fold objectCreated emitted (log (Load u) s)"

fun dispatch :: "(slot \<times> qobject \<times> qurl) list \<Rightarrow> process \<Rightarrow> process" where
  "dispatch [] s = s"
| "dispatch ((sl, obj, objUrl) # es) s = dispatch es (invoke sl obj objUrl s)"

text \<open>
  Modelled from the spec: \<^verbatim>\<open>app.exec()\<close> enters the event loop, which runs the
  posted calls in order and returns the code given to \<^verbatim>\<open>exit\<close>, or else the code
  \<open>quit\<close> with which the toolkit ends the loop on its own (0 on a clean shutdown).
\<close>

definition exec :: "int \<Rightarrow> process \<Rightarrow> int \<times> process" where
  "exec quit s =
     (let s1 = log Exec s;
          s2 = dispatch (posted s1) (s1\<lparr>posted := []\<rparr>)
      in (case exit_code s2 of Some c \<Rightarrow> c | None \<Rightarrow> quit, s2))"

subsection \<open>main\<close>

definition url :: qurl where
  "url = ''qrc:/main.qml''"

text \<open>Lines 10 to 34: everything before the load request.\<close>

definition bootstrap :: "string list \<Rightarrow> process" where
  "bootstrap argv =
     (let s = setAttribute AA_EnableHighDpiScaling start;
          s = setAttribute AA_UseHighDpiPixmaps s;
          s = QGuiApplication argv s;
          s = setApplicationName ''PuertoCho Assistant Dashboard'' s;
          s = setApplicationVersion ''1.0.0'' s;
          s = setOrganizationName ''PuertoCho'' s;
          s = setOrganizationDomain ''puertocho.local'' s;
          s = QQmlApplicationEngine s;
          s = rootContext s;
          s = setContextProperty ''applicationVersion'' (applicationVersion s) s;
          s = setContextProperty ''applicationName'' (applicationName s) s
      in connect (Lambda url) QueuedConnection s)"

text \<open>Lines 36 and 38; the result is the exit status of the process and its last state.\<close>

definition main :: "string list \<Rightarrow> (qobject \<times> qurl) list \<Rightarrow> int \<Rightarrow> int \<times> process" where
  "main argv emitted quit = exec quit (load url emitted (bootstrap argv))"

subsection \<open>Reading the log\<close>

primrec position :: "call \<Rightarrow> call list \<Rightarrow> nat option" where
  "position c [] = None"
| "position c (x # xs) = (if x = c then Some 0 else map_option Suc (position c xs))"

text \<open>Both calls were made, and the first \<open>a\<close> is earlier than the first \<open>b\<close>.\<close>

definition happens_before :: "call \<Rightarrow> call \<Rightarrow> call list \<Rightarrow> bool" where
  "happens_before a b tr =
     (case position a tr of None \<Rightarrow> False
      | Some i \<Rightarrow> (case position b tr of None \<Rightarrow> False | Some j \<Rightarrow> i < j))"

fun is_invoke :: "call \<Rightarrow> bool" where
  "is_invoke (Invoke sl obj objUrl) = True"
| "is_invoke c = False"

fun is_exit :: "call \<Rightarrow> bool" where
  "is_exit (Exit c) = True"
| "is_exit c = False"

text \<open>The calls that write the attribute flags, the identity strings or the context.\<close>

fun is_write :: "call \<Rightarrow> bool" where
  "is_write (SetAttribute a) = True"
| "is_write (SetApplicationName n) = True"
| "is_write (SetApplicationVersion v) = True"
| "is_write (SetOrganizationName n) = True"
| "is_write (SetOrganizationDomain d) = True"
| "is_write (SetContextProperty k v) = True"
| "is_write c = False"

text \<open>A notification that makes the lambda ask for the exit: no document, and its path.\<close>

definition failed :: "qurl \<Rightarrow> qobject \<times> qurl \<Rightarrow> bool" where
  "failed u n = (fst n = None \<and> u = snd n)"

text \<open>What the event loop logs while it runs the lambda on the notifications.\<close>

fun loop_calls :: "qurl \<Rightarrow> (qobject \<times> qurl) list \<Rightarrow> call list" where
  "loop_calls u [] = []"
| "loop_calls u (n # ns) =
     Invoke (Lambda u) (fst n) (snd n) # (if failed u n then [Exit (- 1)] else []) @ loop_calls u ns"

definition startup_calls :: "string list \<Rightarrow> call list" where
  "startup_calls argv =
     [SetAttribute AA_EnableHighDpiScaling, SetAttribute AA_UseHighDpiPixmaps,
      Construct argv,
      SetApplicationName ''PuertoCho Assistant Dashboard'', SetApplicationVersion ''1.0.0'',
      SetOrganizationName ''PuertoCho'', SetOrganizationDomain ''puertocho.local'',
      NewEngine, RootContext,
      SetContextProperty ''applicationVersion'' ''1.0.0'',
      SetContextProperty ''applicationName'' ''PuertoCho Assistant Dashboard'',
      Connect (Lambda url) QueuedConnection]"

fun is_load :: "call \<Rightarrow> bool" where
  "is_load (Load u) = True"
| "is_load c = False"

text \<open>A log or a state with the argument vector of the constructor replaced.\<close>

fun retarget :: "string list \<Rightarrow> call \<Rightarrow> call" where
  "retarget argv (Construct old) = Construct argv"
| "retarget argv c = c"

definition with_args :: "string list \<Rightarrow> process \<Rightarrow> process" where
  "with_args argv s = s\<lparr>app_args := Some argv, calls := map (retarget argv) (calls s)\<rparr>"

text \<open>The calls of every run up to the entry into the event loop.\<close>

definition fixed_calls :: "string list \<Rightarrow> call list" where
  "fixed_calls argv = startup_calls argv @ [Load url, Exec]"

section \<open>Properties\<close>

subsection \<open>The state and the log of a run, in closed form\<close>

lemmas call_defs = log_def setAttribute_def QGuiApplication_def setApplicationName_def
  setApplicationVersion_def setOrganizationName_def setOrganizationDomain_def
  QQmlApplicationEngine_def rootContext_def setContextProperty_def connect_def

lemma bootstrap_calls: "calls (bootstrap argv) = startup_calls argv"
  by (simp add: bootstrap_def startup_calls_def call_defs start_def)

lemma bootstrap_connections: "connections (bootstrap argv) = [(Lambda url, QueuedConnection)]"
  by (simp add: bootstrap_def call_defs start_def)

lemma bootstrap_posted: "posted (bootstrap argv) = []"
  by (simp add: bootstrap_def call_defs start_def)

lemma bootstrap_exit_code: "exit_code (bootstrap argv) = None"
  by (simp add: bootstrap_def call_defs start_def)

lemma fold_objectCreated:
  "connections s = [(sl, QueuedConnection)] \<Longrightarrow>
   fold objectCreated emitted s = s\<lparr>posted := posted s @ map (\<lambda>n. (sl, fst n, snd n)) emitted\<rparr>"
proof (induction emitted arbitrary: s)
  case Nil
  then show ?case by simp
next
  case (Cons n emitted)
  let ?s' = "s\<lparr>posted := posted s @ [(sl, fst n, snd n)]\<rparr>"
  from Cons.prems have step: "objectCreated n s = ?s'"
    by (simp add: objectCreated_def)
  from Cons.prems have "connections ?s' = [(sl, QueuedConnection)]"
    by simp
  from Cons.IH [OF this] step show ?case
    by simp
qed

lemma load_bootstrap:
  "load url emitted (bootstrap argv) =
     (bootstrap argv)\<lparr>posted := map (\<lambda>n. (Lambda url, fst n, snd n)) emitted,
        calls := startup_calls argv @ [Load url]\<rparr>"
proof -
  let ?s = "log (Load url) (bootstrap argv)"
  have "connections ?s = [(Lambda url, QueuedConnection)]"
    by (simp add: log_def bootstrap_connections)
  from fold_objectCreated [OF this, of emitted] show ?thesis
    by (simp add: load_def log_def bootstrap_posted bootstrap_calls)
qed

lemma invoke_lambda:
  "invoke (Lambda u) obj objUrl s =
     s\<lparr>exit_code := (if failed u (obj, objUrl) then Some (- 1) else exit_code s),
       calls := calls s @ loop_calls u [(obj, objUrl)]\<rparr>"
  by (simp add: invoke_def exit_def log_def failed_def)

lemma dispatch_lambda:
  "dispatch (map (\<lambda>n. (Lambda u, fst n, snd n)) emitted) s =
     s\<lparr>exit_code := (if list_ex (failed u) emitted then Some (- 1) else exit_code s),
       calls := calls s @ loop_calls u emitted\<rparr>"
proof (induction emitted arbitrary: s)
  case Nil
  then show ?case by simp
next
  case (Cons n emitted)
  obtain obj objUrl where n: "n = (obj, objUrl)"
    by (cases n)
  let ?s1 = "invoke (Lambda u) obj objUrl s"
  have "dispatch (map (\<lambda>n. (Lambda u, fst n, snd n)) (n # emitted)) s =
        dispatch (map (\<lambda>n. (Lambda u, fst n, snd n)) emitted) ?s1"
    by (simp add: n)
  also have "\<dots> = ?s1\<lparr>exit_code := (if list_ex (failed u) emitted then Some (- 1) else exit_code ?s1),
       calls := calls ?s1 @ loop_calls u emitted\<rparr>"
    by (rule Cons.IH)
  also have "\<dots> = s\<lparr>exit_code := (if list_ex (failed u) (n # emitted) then Some (- 1) else exit_code s),
       calls := calls s @ loop_calls u (n # emitted)\<rparr>"
    unfolding invoke_lambda by (cases "failed u (obj, objUrl)") (simp_all add: n)
  finally show ?case .
qed

text \<open>The last state of a run: the state before the load request, the exit code, the log.\<close>

lemma main_state:
  "snd (main argv emitted quit) =
     (bootstrap argv)\<lparr>exit_code := (if list_ex (failed url) emitted then Some (- 1) else None),
        calls := startup_calls argv @ [Load url, Exec] @ loop_calls url emitted\<rparr>"
proof -
  let ?f = "\<lambda>n::qobject \<times> qurl. (Lambda url, fst n, snd n)"
  let ?s1 = "(bootstrap argv)\<lparr>calls := startup_calls argv @ [Load url, Exec], posted := []\<rparr>"
  have "snd (main argv emitted quit) = dispatch (map ?f emitted) ?s1"
    by (simp add: main_def exec_def load_bootstrap log_def Let_def)
  also have "\<dots> = ?s1\<lparr>exit_code := (if list_ex (failed url) emitted then Some (- 1) else exit_code ?s1),
       calls := calls ?s1 @ loop_calls url emitted\<rparr>"
    by (rule dispatch_lambda)
  finally show ?thesis
    by (simp add: bootstrap_exit_code bootstrap_posted)
qed

lemma main_status:
  "fst (main argv emitted quit) = (if list_ex (failed url) emitted then - 1 else quit)"
proof -
  have "fst (main argv emitted quit) =
        (case exit_code (snd (main argv emitted quit)) of Some c \<Rightarrow> c | None \<Rightarrow> quit)"
    by (simp add: main_def exec_def Let_def)
  then show ?thesis
    by (simp add: main_state)
qed

lemma main_calls:
  "calls (snd (main argv emitted quit)) =
     startup_calls argv @ [Load url, Exec] @ loop_calls url emitted"
  by (simp add: main_state)

lemma main_calls_fixed:
  "calls (snd (main argv emitted quit)) = fixed_calls argv @ loop_calls url emitted"
  by (simp add: main_calls fixed_calls_def)

lemma position_append:
  "a \<in> set xs \<Longrightarrow> position a (xs @ ys) = position a xs"
  by (induction xs) auto

lemma happens_before_append:
  "a \<in> set xs \<Longrightarrow> b \<in> set xs \<Longrightarrow> happens_before a b (xs @ ys) = happens_before a b xs"
proof -
  assume a: "a \<in> set xs" and b: "b \<in> set xs"
  have "position a (xs @ ys) = position a xs" "position b (xs @ ys) = position b xs"
    using a b by (simp_all add: position_append)
  then show ?thesis
    unfolding happens_before_def by (simp split: option.split)
qed

lemma loop_calls_exit: "list_ex is_exit (loop_calls u emitted) = list_ex (failed u) emitted"
  by (induction emitted) auto

lemma loop_calls_invoke: "length (filter is_invoke (loop_calls u emitted)) = length emitted"
  by (induction emitted) auto

lemma loop_calls_write: "filter is_write (loop_calls u emitted) = []"
  by (induction emitted) auto

lemma fixed_calls_exit: "\<not> list_ex is_exit (fixed_calls argv)"
  by (simp add: fixed_calls_def startup_calls_def)

lemma fixed_calls_invoke: "filter is_invoke (fixed_calls argv) = []"
  by (simp add: fixed_calls_def startup_calls_def)

lemma failed_url: "failed url = (\<lambda>(obj, objUrl). obj = None \<and> objUrl = ''qrc:/main.qml'')"
  by (auto simp: failed_def url_def fun_eq_iff)

lemma loop_calls_invocations:
  "filter is_invoke (loop_calls u emitted) =
     map (\<lambda>n. Invoke (Lambda u) (fst n) (snd n)) emitted"
  by (induction emitted) auto

lemma loop_calls_load: "filter is_load (loop_calls u emitted) = []"
  by (induction emitted) auto

lemma loop_calls_retarget: "map (retarget argv) (loop_calls u emitted) = loop_calls u emitted"
  by (induction emitted) auto

lemma bootstrap_args:
  "bootstrap a1 = (bootstrap a2)\<lparr>app_args := Some a1, calls := startup_calls a1\<rparr>"
  by (simp add: bootstrap_def call_defs start_def startup_calls_def)

lemma before_loop:
  "takeWhile (\<lambda>c. c \<noteq> Exec) (calls (snd (main argv emitted quit))) =
     startup_calls argv @ [Load url]"
  by (simp add: main_calls startup_calls_def)

subsection \<open>Two concrete runs, computed from the definitions\<close>

lemmas run_defs = main_def exec_def load_def objectCreated_def bootstrap_def call_defs
  start_def invoke_def exit_def url_def Let_def

lemma failed_load_run:
  "fst (main [''view''] [(None, ''qrc:/main.qml'')] 0) = - 1"
  by (simp add: run_defs)

lemma failed_load_log:
  "calls (snd (main [''view''] [(None, ''qrc:/main.qml'')] 0)) =
     startup_calls [''view''] @
     [Load ''qrc:/main.qml'', Exec, Invoke (Lambda ''qrc:/main.qml'') None ''qrc:/main.qml'',
      Exit (- 1)]"
  by (simp add: run_defs startup_calls_def)

lemma successful_load_run:
  "fst (main [''view''] [(Some 1, ''qrc:/main.qml'')] 0) = 0"
  by (simp add: run_defs)

subsection \<open>The claims\<close>

text \<open>
  C1. The observer ends the process with code -1 exactly when a notification it is given
  carries a null document and the path \<^verbatim>\<open>qrc:/main.qml\<close>: the status of the process
  is -1 in that case and the toolkit's own code otherwise, the exit code recorded is -1 in
  that case and none otherwise, and \<^verbatim>\<open>exit\<close> is called in that case only. A notification
  with another path, or with a document, never ends the process.
\<close>

theorem exit_iff_null_document_and_root_path:
  "fst (main argv emitted quit) =
     (if list_ex (\<lambda>(obj, objUrl). obj = None \<and> objUrl = ''qrc:/main.qml'') emitted
      then - 1 else quit) \<and>
   exit_code (snd (main argv emitted quit)) =
     (if list_ex (\<lambda>(obj, objUrl). obj = None \<and> objUrl = ''qrc:/main.qml'') emitted
      then Some (- 1) else None) \<and>
   list_ex is_exit (calls (snd (main argv emitted quit))) =
     list_ex (\<lambda>(obj, objUrl). obj = None \<and> objUrl = ''qrc:/main.qml'') emitted"
proof -
  have "list_ex is_exit (calls (snd (main argv emitted quit))) = list_ex (failed url) emitted"
    using fixed_calls_exit [of argv] by (simp add: main_calls_fixed loop_calls_exit)
  then show ?thesis
    by (simp add: main_status main_state failed_url)
qed

text \<open>
  C2. In every run the four identity strings are set and the two context properties
  \<^verbatim>\<open>applicationVersion\<close> and \<^verbatim>\<open>applicationName\<close> are published before the load request
  for the root document is issued.
\<close>

theorem identity_and_context_before_load:
  "happens_before (SetApplicationName ''PuertoCho Assistant Dashboard'') (Load ''qrc:/main.qml'')
     (calls (snd (main argv emitted quit))) \<and>
   happens_before (SetApplicationVersion ''1.0.0'') (Load ''qrc:/main.qml'')
     (calls (snd (main argv emitted quit))) \<and>
   happens_before (SetOrganizationName ''PuertoCho'') (Load ''qrc:/main.qml'')
     (calls (snd (main argv emitted quit))) \<and>
   happens_before (SetOrganizationDomain ''puertocho.local'') (Load ''qrc:/main.qml'')
     (calls (snd (main argv emitted quit))) \<and>
   happens_before (SetContextProperty ''applicationVersion'' ''1.0.0'') (Load ''qrc:/main.qml'')
     (calls (snd (main argv emitted quit))) \<and>
   happens_before (SetContextProperty ''applicationName'' ''PuertoCho Assistant Dashboard'')
     (Load ''qrc:/main.qml'') (calls (snd (main argv emitted quit)))"
  unfolding main_calls_fixed
  by (simp add: happens_before_append fixed_calls_def startup_calls_def url_def)
     (simp add: happens_before_def)

text \<open>
  C3. In every launch, and so in every launch in which the root document loads, the
  context property \<^verbatim>\<open>applicationName\<close> is "PuertoCho Assistant Dashboard" and the
  context property \<^verbatim>\<open>applicationVersion\<close> is "1.0.0", and each is the identity string
  held by the application object.
\<close>

theorem context_properties_hold_identity:
  "contextProperties (snd (main argv emitted quit)) ''applicationName'' =
     Some ''PuertoCho Assistant Dashboard'' \<and>
   contextProperties (snd (main argv emitted quit)) ''applicationVersion'' = Some ''1.0.0'' \<and>
   contextProperties (snd (main argv emitted quit)) ''applicationName'' =
     Some (applicationName (snd (main argv emitted quit))) \<and>
   contextProperties (snd (main argv emitted quit)) ''applicationVersion'' =
     Some (applicationVersion (snd (main argv emitted quit)))"
  by (simp add: main_state bootstrap_def call_defs start_def)

text \<open>
  C4, as stated, fails: in the run with no arguments and no notification the load request
  is not issued before the observer is registered.
\<close>

theorem load_before_connect_counterexample:
  "\<not> happens_before (Load ''qrc:/main.qml'') (Connect (Lambda ''qrc:/main.qml'') QueuedConnection)
       (calls (snd (main [] [] 0)))"
  by (simp add: main_calls startup_calls_def url_def happens_before_def)

text \<open>
  C4, amended. In every run the calls are made in the order of the program text: the two
  attributes, the application object, name, version, organization and domain, the root
  context, the properties \<^verbatim>\<open>applicationVersion\<close> and \<^verbatim>\<open>applicationName\<close>, then
  the registration of the observer, and only then the load request, followed by the entry
  into the event loop.
\<close>

theorem startup_order:
  "happens_before (SetAttribute AA_EnableHighDpiScaling) (SetAttribute AA_UseHighDpiPixmaps)
     (calls (snd (main argv emitted quit))) \<and>
   happens_before (SetAttribute AA_UseHighDpiPixmaps) (Construct argv)
     (calls (snd (main argv emitted quit))) \<and>
   happens_before (Construct argv) (SetApplicationName ''PuertoCho Assistant Dashboard'')
     (calls (snd (main argv emitted quit))) \<and>
   happens_before (SetApplicationName ''PuertoCho Assistant Dashboard'')
     (SetApplicationVersion ''1.0.0'') (calls (snd (main argv emitted quit))) \<and>
   happens_before (SetApplicationVersion ''1.0.0'') (SetOrganizationName ''PuertoCho'')
     (calls (snd (main argv emitted quit))) \<and>
   happens_before (SetOrganizationName ''PuertoCho'') (SetOrganizationDomain ''puertocho.local'')
     (calls (snd (main argv emitted quit))) \<and>
   happens_before (SetOrganizationDomain ''puertocho.local'') RootContext
     (calls (snd (main argv emitted quit))) \<and>
   happens_before RootContext (SetContextProperty ''applicationVersion'' ''1.0.0'')
     (calls (snd (main argv emitted quit))) \<and>
   happens_before (SetContextProperty ''applicationVersion'' ''1.0.0'')
     (SetContextProperty ''applicationName'' ''PuertoCho Assistant Dashboard'')
     (calls (snd (main argv emitted quit))) \<and>
   happens_before (SetContextProperty ''applicationName'' ''PuertoCho Assistant Dashboard'')
     (Connect (Lambda ''qrc:/main.qml'') QueuedConnection)
     (calls (snd (main argv emitted quit))) \<and>
   happens_before (Connect (Lambda ''qrc:/main.qml'') QueuedConnection) (Load ''qrc:/main.qml'')
     (calls (snd (main argv emitted quit))) \<and>
   happens_before (Load ''qrc:/main.qml'') Exec (calls (snd (main argv emitted quit)))"
  unfolding main_calls_fixed
  by (simp add: happens_before_append fixed_calls_def startup_calls_def url_def)
     (simp add: happens_before_def)

text \<open>
  C5. The observer is registered with a queued connection. When the load request
  returns, every notification emitted for it is waiting in the event queue, no call of
  the observer and no call of \<^verbatim>\<open>exit\<close> has been made, and no exit code is recorded. In
  the log of the run the load request lies before the entry into the event loop and no
  call of the observer or of \<^verbatim>\<open>exit\<close> does; the observer still runs once for each
  notification, after that entry.
\<close>

theorem observer_runs_in_event_loop_only:
  "connections (bootstrap argv) = [(Lambda ''qrc:/main.qml'', QueuedConnection)] \<and>
   posted (load url emitted (bootstrap argv)) =
     map (\<lambda>n. (Lambda ''qrc:/main.qml'', fst n, snd n)) emitted \<and>
   exit_code (load url emitted (bootstrap argv)) = None \<and>
   \<not> list_ex is_invoke (calls (load url emitted (bootstrap argv))) \<and>
   \<not> list_ex is_exit (calls (load url emitted (bootstrap argv))) \<and>
   Load ''qrc:/main.qml'' \<in> set (takeWhile (\<lambda>c. c \<noteq> Exec) (calls (snd (main argv emitted quit)))) \<and>
   \<not> list_ex is_invoke (takeWhile (\<lambda>c. c \<noteq> Exec) (calls (snd (main argv emitted quit)))) \<and>
   \<not> list_ex is_exit (takeWhile (\<lambda>c. c \<noteq> Exec) (calls (snd (main argv emitted quit)))) \<and>
   length (filter is_invoke (calls (snd (main argv emitted quit)))) = length emitted"
proof -
  have "length (filter is_invoke (calls (snd (main argv emitted quit)))) = length emitted"
    by (simp add: main_calls_fixed fixed_calls_invoke loop_calls_invoke)
  moreover have "posted (load url emitted (bootstrap argv)) =
     map (\<lambda>n. (Lambda ''qrc:/main.qml'', fst n, snd n)) emitted"
    unfolding load_bootstrap by (simp add: url_def)
  ultimately show ?thesis
    unfolding before_loop
    by (simp add: load_bootstrap bootstrap_connections bootstrap_exit_code)
       (simp add: startup_calls_def url_def)
qed

text \<open>
  C6. The engine emits one notification for a load request, or none while the document
  never finishes. On that condition the observer is invoked at most once in the run: the
  program registers one connection and issues one load request, for
  \<^verbatim>\<open>qrc:/main.qml\<close>, the invocations are the notifications emitted, each with its
  document and path, and \<^verbatim>\<open>exit\<close> is called exactly when the notification carries a
  null document and the requested path.
\<close>

theorem observer_invoked_at_most_once:
  assumes "length emitted \<le> 1"
  shows "length (filter is_invoke (calls (snd (main argv emitted quit)))) \<le> 1 \<and>
   filter is_invoke (calls (snd (main argv emitted quit))) =
     map (\<lambda>n. Invoke (Lambda ''qrc:/main.qml'') (fst n) (snd n)) emitted \<and>
   connections (snd (main argv emitted quit)) = [(Lambda ''qrc:/main.qml'', QueuedConnection)] \<and>
   filter is_load (calls (snd (main argv emitted quit))) = [Load ''qrc:/main.qml''] \<and>
   list_ex is_exit (calls (snd (main argv emitted quit))) =
     list_ex (\<lambda>(obj, objUrl). obj = None \<and> objUrl = ''qrc:/main.qml'') emitted"
proof -
  have inv: "filter is_invoke (calls (snd (main argv emitted quit))) =
     map (\<lambda>n. Invoke (Lambda ''qrc:/main.qml'') (fst n) (snd n)) emitted"
    by (simp add: main_calls_fixed fixed_calls_invoke loop_calls_invocations url_def)
  have "length (filter is_invoke (calls (snd (main argv emitted quit)))) = length emitted"
    unfolding inv by simp
  with assms have once: "length (filter is_invoke (calls (snd (main argv emitted quit)))) \<le> 1"
    by simp
  have con: "connections (snd (main argv emitted quit)) =
     [(Lambda ''qrc:/main.qml'', QueuedConnection)]"
    by (simp add: main_state bootstrap_connections url_def)
  have lo: "filter is_load (calls (snd (main argv emitted quit))) = [Load ''qrc:/main.qml'']"
    by (simp add: main_calls loop_calls_load startup_calls_def url_def)
  have ex: "list_ex is_exit (calls (snd (main argv emitted quit))) =
     list_ex (\<lambda>(obj, objUrl). obj = None \<and> objUrl = ''qrc:/main.qml'') emitted"
    using fixed_calls_exit [of argv]
    by (simp add: main_calls_fixed loop_calls_exit failed_url)
  from once inv con lo ex show ?thesis
    by blast
qed

theorem observer_invoked_at_most_once_witness:
  "length [(None :: qobject, ''qrc:/main.qml'')] \<le> 1 \<and>
   length (filter is_invoke
     (calls (snd (main [''view''] [(None, ''qrc:/main.qml'')] 0)))) \<le> 1 \<and>
   filter is_invoke (calls (snd (main [''view''] [(None, ''qrc:/main.qml'')] 0))) =
     [Invoke (Lambda ''qrc:/main.qml'') None ''qrc:/main.qml''] \<and>
   list_ex is_exit (calls (snd (main [''view''] [(None, ''qrc:/main.qml'')] 0)))"
proof -
  have h: "length [(None :: qobject, ''qrc:/main.qml'')] \<le> 1"
    by simp
  from observer_invoked_at_most_once [OF h, of "[''view'']" 0] h show ?thesis
    by simp
qed

text \<open>
  C7. In every run both high-DPI attributes are set before the application object is
  constructed.
\<close>

theorem attributes_before_application_object:
  "happens_before (SetAttribute AA_EnableHighDpiScaling) (Construct argv)
     (calls (snd (main argv emitted quit))) \<and>
   happens_before (SetAttribute AA_UseHighDpiPixmaps) (Construct argv)
     (calls (snd (main argv emitted quit)))"
  unfolding main_calls_fixed
  by (simp add: happens_before_append fixed_calls_def startup_calls_def)
     (simp add: happens_before_def)

text \<open>
  C8. In every run, whatever the engine reports, the calls that write the attribute flags,
  the identity strings or the context properties are exactly the eight of the startup
  sequence, each made once, and at the end of the run the flags, the four identity
  strings and the context properties are what they were when the startup sequence
  completed.
\<close>

theorem startup_state_written_once:
  "filter is_write (calls (snd (main argv emitted quit))) =
     [SetAttribute AA_EnableHighDpiScaling, SetAttribute AA_UseHighDpiPixmaps,
      SetApplicationName ''PuertoCho Assistant Dashboard'', SetApplicationVersion ''1.0.0'',
      SetOrganizationName ''PuertoCho'', SetOrganizationDomain ''puertocho.local'',
      SetContextProperty ''applicationVersion'' ''1.0.0'',
      SetContextProperty ''applicationName'' ''PuertoCho Assistant Dashboard''] \<and>
   attributes (snd (main argv emitted quit)) = attributes (bootstrap argv) \<and>
   applicationName (snd (main argv emitted quit)) = applicationName (bootstrap argv) \<and>
   applicationVersion (snd (main argv emitted quit)) = applicationVersion (bootstrap argv) \<and>
   organizationName (snd (main argv emitted quit)) = organizationName (bootstrap argv) \<and>
   organizationDomain (snd (main argv emitted quit)) = organizationDomain (bootstrap argv) \<and>
   contextProperties (snd (main argv emitted quit)) = contextProperties (bootstrap argv)"
  by (simp add: main_state loop_calls_write) (simp add: startup_calls_def)

text \<open>
  C9. The run on one argument vector is the run on any other one with the argument
  vector replaced in the call of the constructor and in the application object: the exit
  status and every other call and field are the same. The constructor receives the
  vector as it is, and the only load request is for \<^verbatim>\<open>qrc:/main.qml\<close>.
\<close>

theorem behaviour_independent_of_arguments:
  "main a1 emitted quit =
     (fst (main a2 emitted quit), with_args a1 (snd (main a2 emitted quit))) \<and>
   app_args (snd (main a1 emitted quit)) = Some a1 \<and>
   filter is_load (calls (snd (main a1 emitted quit))) = [Load ''qrc:/main.qml'']"
proof -
  have "snd (main a1 emitted quit) = with_args a1 (snd (main a2 emitted quit))"
    unfolding main_state with_args_def
    by (subst bootstrap_args [of a1 a2]) (simp add: loop_calls_retarget startup_calls_def)
  moreover have "fst (main a1 emitted quit) = fst (main a2 emitted quit)"
    by (simp add: main_status)
  moreover have "app_args (snd (main a1 emitted quit)) = Some a1"
    by (simp add: main_state bootstrap_def call_defs start_def)
  moreover have "filter is_load (calls (snd (main a1 emitted quit))) = [Load ''qrc:/main.qml'']"
    by (simp add: main_calls loop_calls_load startup_calls_def url_def)
  ultimately show ?thesis
    by (simp add: prod_eq_iff)
qed

text \<open>
  C10. In every run the organization name is "PuertoCho" and the organization domain is
  "puertocho.local", and both are set before the engine is created, hence before its
  root context is obtained and the context properties are published.
\<close>

theorem organization_identity:
  "organizationName (snd (main argv emitted quit)) = ''PuertoCho'' \<and>
   organizationDomain (snd (main argv emitted quit)) = ''puertocho.local'' \<and>
   happens_before (SetOrganizationName ''PuertoCho'') NewEngine
     (calls (snd (main argv emitted quit))) \<and>
   happens_before (SetOrganizationDomain ''puertocho.local'') NewEngine
     (calls (snd (main argv emitted quit))) \<and>
   happens_before NewEngine RootContext (calls (snd (main argv emitted quit))) \<and>
   happens_before RootContext (SetContextProperty ''applicationVersion'' ''1.0.0'')
     (calls (snd (main argv emitted quit))) \<and>
   happens_before RootContext (SetContextProperty ''applicationName'' ''PuertoCho Assistant Dashboard'')
     (calls (snd (main argv emitted quit)))"
proof -
  have "organizationName (snd (main argv emitted quit)) = ''PuertoCho''"
       "organizationDomain (snd (main argv emitted quit)) = ''puertocho.local''"
    by (simp_all add: main_state bootstrap_def call_defs start_def)
  then show ?thesis
    unfolding main_calls_fixed
    by (simp add: happens_before_append fixed_calls_def startup_calls_def)
       (simp add: happens_before_def)
qed

end
